theory Spec2Isabelle
  imports Complex_Main
begin

section \<open>Backend service of the AI gateway (backend-service/main.py)\<close>

text \<open>
  The service has two chat handlers: \<open>chat\<close> (POST /api/v1/chat), which forwards the
  request to the LiteLLM proxy over the module-level httpx client, and
  \<open>vertex_ai_chat\<close> (POST /api/v1/vertex-ai/chat), which calls the Vertex AI SDK.
  Both are embedded as functions that take the world outside main.py (what the upstream
  answers, what the clock reads) as an argument, thread the process state (the shared
  client, the Prometheus counters, the scheduled background tasks, the log) explicitly,
  and return either the exception raised to the framework or the \<open>ChatResponse\<close>.
\<close>

subsection \<open>Exceptions\<close>

text \<open>
  The exception classes the handlers distinguish. \<open>httpx.TimeoutException\<close> is a subclass
  of \<open>httpx.RequestError\<close>; the handlers test for it first. \<open>HTTPException\<close> carries
  \<open>status_code\<close> and \<open>detail\<close>; like every other class it derives from \<open>Exception\<close>.
  \<open>OtherException\<close> stands for any exception that is none of the three, tagged with its
  class name (KeyError, TypeError, RuntimeError, ...); its message is only ever logged.
\<close>

datatype exn =
    TimeoutException
  | RequestError string
  | HTTPException int string
  | OtherException string

subsection \<open>Pydantic models\<close>

text \<open>
  \<open>class ChatRequest(BaseModel)\<close>. \<open>Optional[...]\<close> fields are options; the float
  temperature is a real number (only its comparisons with the bounds and its verbatim
  copying are used).
\<close>

record ChatRequest =
  message :: string
  model :: string
  temperature :: "real option"
  max_tokens :: "int option"
  system_prompt :: "string option"
  conversation_id :: "string option"

text \<open>
  \<open>class ChatResponse(BaseModel)\<close>. The fields \<open>model\<close> and \<open>conversation_id\<close> are
  prefixed with \<open>response_\<close> because a record field name can be declared only once.
\<close>

record ChatResponse =
  response :: string
  response_model :: string
  tokens_used :: "int option"
  response_conversation_id :: "string option"
  timestamp :: int
  processing_time :: real

subsection \<open>Python values decoded from JSON\<close>

text \<open>
  The value \<open>response.json()\<close> returns: \<open>None\<close>, a bool, an int, a float, a str, a list
  or a dict. A dict is the list of its items (keys are distinct in a dict, so lookup by
  \<open>map_of\<close> is the dict's lookup).
\<close>

datatype json =
    JNull
  | JBool bool
  | JInt int
  | JFloat real
  | JStr string
  | JArr "json list"
  | JObj "(string \<times> json) list"

text \<open>\<open>v[k]\<close> with a str key: a dict looks the key up (KeyError when missing); every
  other value raises TypeError.\<close>

fun getitem_str :: "json \<Rightarrow> string \<Rightarrow> exn + json" where
  "getitem_str (JObj kvs) k =
     (case map_of kvs k of
        Some v \<Rightarrow> Inr v
      | None \<Rightarrow> Inl (OtherException ''KeyError''))"
| "getitem_str (JArr xs) k = Inl (OtherException ''TypeError'')"
| "getitem_str (JStr s) k = Inl (OtherException ''TypeError'')"
| "getitem_str JNull k = Inl (OtherException ''TypeError'')"
| "getitem_str (JBool b) k = Inl (OtherException ''TypeError'')"
| "getitem_str (JInt i) k = Inl (OtherException ''TypeError'')"
| "getitem_str (JFloat f) k = Inl (OtherException ''TypeError'')"

text \<open>\<open>v[0]\<close>: the first element of a list or the first character of a str (IndexError
  when empty); a dict decoded from JSON has only str keys, so the key 0 is missing
  (KeyError); every other value raises TypeError.\<close>

fun getitem_0 :: "json \<Rightarrow> exn + json" where
  "getitem_0 (JArr (x # xs)) = Inr x"
| "getitem_0 (JArr []) = Inl (OtherException ''IndexError'')"
| "getitem_0 (JStr (c # cs)) = Inr (JStr [c])"
| "getitem_0 (JStr []) = Inl (OtherException ''IndexError'')"
| "getitem_0 (JObj kvs) = Inl (OtherException ''KeyError'')"
| "getitem_0 JNull = Inl (OtherException ''TypeError'')"
| "getitem_0 (JBool b) = Inl (OtherException ''TypeError'')"
| "getitem_0 (JInt i) = Inl (OtherException ''TypeError'')"
| "getitem_0 (JFloat f) = Inl (OtherException ''TypeError'')"

text \<open>\<open>v.get(k, d)\<close>: only a dict has the method; every other value raises
  AttributeError.\<close>

fun dict_get :: "json \<Rightarrow> string \<Rightarrow> json \<Rightarrow> exn + json" where
  "dict_get (JObj kvs) k d =
     Inr (case map_of kvs k of Some v \<Rightarrow> v | None \<Rightarrow> d)"
| "dict_get (JArr xs) k d = Inl (OtherException ''AttributeError'')"
| "dict_get (JStr s) k d = Inl (OtherException ''AttributeError'')"
| "dict_get JNull k d = Inl (OtherException ''AttributeError'')"
| "dict_get (JBool b) k d = Inl (OtherException ''AttributeError'')"
| "dict_get (JInt i) k d = Inl (OtherException ''AttributeError'')"
| "dict_get (JFloat f) k d = Inl (OtherException ''AttributeError'')"

subsection \<open>The request sent to LiteLLM\<close>

text \<open>The dicts \<open>{"role": ..., "content": ...}\<close> and \<open>litellm_request\<close>; the keys
  \<open>model\<close>, \<open>temperature\<close> and \<open>max_tokens\<close> are prefixed with \<open>payload_\<close>.\<close>

record ChatMessage =
  role :: string
  content :: string

record LitellmRequest =
  payload_model :: string
  messages :: "ChatMessage list"
  payload_temperature :: "real option"
  payload_max_tokens :: "int option"

text \<open>
  Lines 229 to 243 of \<open>chat\<close>: the dict is built with the user message alone, then
  \<open>if request.system_prompt:\<close> inserts the system message at index 0. The test is
  Python truthiness: \<open>None\<close> and the empty string are both false.
\<close>

definition litellm_request_of :: "ChatRequest \<Rightarrow> LitellmRequest" where
  "litellm_request_of request =
     (let litellm_request =
            \<lparr> payload_model = model request,
              messages = [\<lparr> role = ''user'', content = message request \<rparr>],
              payload_temperature = temperature request,
              payload_max_tokens = max_tokens request \<rparr>
      in case system_prompt request of
           None \<Rightarrow> litellm_request
         | Some s \<Rightarrow>
             if s \<noteq> []
             then litellm_request
                    \<lparr> messages := \<lparr> role = ''system'', content = s \<rparr> # messages litellm_request \<rparr>
             else litellm_request)"

subsection \<open>The world outside main.py\<close>

text \<open>The \<open>httpx.Response\<close>: its status, its body (the attribute \<open>text\<close>, which is
  a command name here, hence \<open>response_text\<close>), and what \<open>response.json()\<close> returns
  (\<open>None\<close> when the body does not decode and the call raises).\<close>

record Response =
  status_code :: int
  response_text :: string
  json_body :: "json option"

datatype post_outcome = Responds Response | Raises exn

text \<open>What the Vertex AI SDK does: the import, the model construction or
  \<open>generate_content\<close> raises (the \<open>str\<close> of the exception is given), or
  \<open>generate_content\<close> returns and reading \<open>response.text\<close> raises, or it yields the
  text.\<close>

datatype generate_outcome = GenerateRaises string | TextRaises string | GenerateText string

text \<open>
  Everything the handlers read from outside: the configured LiteLLM URL, the upstream's
  answer to a POST, the SDK's answer, the two readings of the event-loop clock, the
  wall clock, and the validation pydantic applies to the two \<open>ChatResponse\<close> fields
  whose arguments come from the upstream body: what a value passed for
  \<open>response: str\<close> validates to, and what a value other than \<open>None\<close> passed for
  \<open>tokens_used: Optional[int]\<close> validates to as an \<open>int\<close> (the result \<open>None\<close> is a
  ValidationError). The coercions of that validation differ between pydantic
  versions, so they are parameters.
\<close>

record Env =
  litellm_url :: string
  post :: "string \<Rightarrow> LitellmRequest \<Rightarrow> post_outcome"
  generate_content :: "string \<Rightarrow> string \<Rightarrow> real option \<Rightarrow> int option \<Rightarrow> generate_outcome"
  start_time :: real
  end_time :: real
  utcnow :: int
  validate_response :: "json \<Rightarrow> string option"
  validate_tokens_used :: "json \<Rightarrow> int option"

subsection \<open>Process state\<close>

text \<open>
  The lifecycle of \<open>httpx.AsyncClient\<close>: \<open>async with client\<close> enters the client, which
  is allowed only while it has never been opened, and closes it on leaving the block,
  whether the block returned or raised.
\<close>

datatype ClientState = UNOPENED | OPENED | CLOSED

definition aenter :: "ClientState \<Rightarrow> exn + ClientState" where
  "aenter c =
     (case c of
        UNOPENED \<Rightarrow> Inr OPENED
      | OPENED \<Rightarrow> Inl (OtherException ''RuntimeError'')
      | CLOSED \<Rightarrow> Inl (OtherException ''RuntimeError''))"

text \<open>The arguments of a scheduled \<open>log_chat_request\<close> background task.\<close>

record ChatLogTask =
  task_model :: string
  user_message :: string
  ai_response :: json
  task_processing_time :: real
  task_tokens_used :: json

datatype outbound_call =
    Post string LitellmRequest
  | Generate string string "real option" "int option"

datatype log_entry =
    VertexInitFailed string
  | ChatRequestFailed exn string
  | VertexRequestFailed string string

text \<open>
  The module-level objects the handlers touch: \<open>http_client\<close>, \<open>vertex_ai_available\<close>,
  the two labelled counters (a count per \<open>(model, status)\<close> label pair), the
  \<open>BackgroundTasks\<close> of the request, the calls that left the process, and the error log.
\<close>

record State =
  http_client :: ClientState
  vertex_ai_available :: bool
  LITELLM_REQUESTS :: "string \<times> string \<Rightarrow> nat"
  VERTEX_AI_REQUESTS :: "string \<times> string \<Rightarrow> nat"
  background_tasks :: "ChatLogTask list"
  outbound :: "outbound_call list"
  log :: "log_entry list"

text \<open>\<open>COUNTER.labels(model=m, status=s).inc()\<close>\<close>

definition inc :: "(string \<times> string \<Rightarrow> nat) \<Rightarrow> string \<Rightarrow> string \<Rightarrow> (string \<times> string \<Rightarrow> nat)" where
  "inc counter m s = counter((m, s) := counter (m, s) + 1)"

definition aexit :: "State \<Rightarrow> State" where
  "aexit st = st \<lparr> http_client := CLOSED \<rparr>"

text \<open>
  Module initialisation (lines 110 to 119): the client is constructed once, the counters
  start at zero, and \<open>vertex_ai_available\<close> records whether \<open>default()\<close> and
  \<open>aiplatform.init\<close> returned; the argument is the message of the exception they raised,
  if any.
\<close>

definition module_init :: "string option \<Rightarrow> State" where
  "module_init init_error =
     \<lparr> http_client = UNOPENED,
       vertex_ai_available = (case init_error of None \<Rightarrow> True | Some e \<Rightarrow> False),
       LITELLM_REQUESTS = (\<lambda>l. 0),
       VERTEX_AI_REQUESTS = (\<lambda>l. 0),
       background_tasks = [],
       outbound = [],
       log = (case init_error of None \<Rightarrow> [] | Some e \<Rightarrow> [VertexInitFailed e]) \<rparr>"

subsection \<open>The chat handler\<close>

text \<open>
  Lines 246 to 262, the \<open>async with http_client as client:\<close> block: enter the client,
  POST the request, and on a status other than 200 count an error and raise
  \<open>HTTPException(status_code, "LiteLLM error: " + text)\<close>; otherwise decode the body
  and count a success. Leaving the block closes the client.
\<close>

definition call_litellm ::
  "Env \<Rightarrow> ChatRequest \<Rightarrow> LitellmRequest \<Rightarrow> State \<Rightarrow> (exn + json) \<times> State" where
  "call_litellm env request litellm_request st =
     (case aenter (http_client st) of
        Inl e \<Rightarrow> (Inl e, st)
      | Inr c \<Rightarrow>
          (let url = litellm_url env @ ''/chat/completions'';
               st1 = st \<lparr> http_client := c,
                          outbound := outbound st @ [Post url litellm_request] \<rparr>
           in case post env url litellm_request of
                Raises e \<Rightarrow> (Inl e, aexit st1)
              | Responds r \<Rightarrow>
                  if status_code r \<noteq> 200
                  then (Inl (HTTPException (status_code r) (''LiteLLM error: '' @ response_text r)),
                        aexit (st1 \<lparr> LITELLM_REQUESTS :=
                                       inc (LITELLM_REQUESTS st1) (model request) ''error'' \<rparr>))
                  else (case json_body r of
                          None \<Rightarrow> (Inl (OtherException ''JSONDecodeError''), aexit st1)
                        | Some result \<Rightarrow>
                            (Inr result,
                             aexit (st1 \<lparr> LITELLM_REQUESTS :=
                                            inc (LITELLM_REQUESTS st1) (model request) ''success'' \<rparr>)))))"

text \<open>Line 267: \<open>result["choices"][0]["message"]["content"]\<close>\<close>

definition extract_ai_response :: "json \<Rightarrow> exn + json" where
  "extract_ai_response result =
     (case getitem_str result ''choices'' of
        Inl e \<Rightarrow> Inl e
      | Inr choices \<Rightarrow>
          (case getitem_0 choices of
             Inl e \<Rightarrow> Inl e
           | Inr choice \<Rightarrow>
               (case getitem_str choice ''message'' of
                  Inl e \<Rightarrow> Inl e
                | Inr m \<Rightarrow> getitem_str m ''content'')))"

text \<open>Line 268: \<open>result.get("usage", {}).get("total_tokens")\<close>\<close>

definition extract_tokens_used :: "json \<Rightarrow> exn + json" where
  "extract_tokens_used result =
     (case dict_get result ''usage'' (JObj []) of
        Inl e \<Rightarrow> Inl e
      | Inr usage \<Rightarrow> dict_get usage ''total_tokens'' JNull)"

text \<open>
  Validation of the argument of \<open>tokens_used: Optional[int] = None\<close> (line 74): the
  field is \<open>Optional\<close>, so \<open>None\<close> is admitted as it is; any other value has to validate
  as an \<open>int\<close>.
\<close>

definition validate_optional_int :: "(json \<Rightarrow> int option) \<Rightarrow> json \<Rightarrow> int option option" where
  "validate_optional_int validate_int v =
     (if v = JNull then Some None
      else case validate_int v of
             None \<Rightarrow> None
           | Some n \<Rightarrow> Some (Some n))"

text \<open>
  The body of the \<open>try\<close> (lines 228 to 287): build the request, call LiteLLM, read the
  clock, extract the answer and the token count, schedule the \<open>log_chat_request\<close> task,
  and construct the \<open>ChatResponse\<close> (whose validation can raise).
\<close>

definition chat_try :: "Env \<Rightarrow> ChatRequest \<Rightarrow> State \<Rightarrow> (exn + ChatResponse) \<times> State" where
  "chat_try env request st =
     (case call_litellm env request (litellm_request_of request) st of
        (Inl e, st1) \<Rightarrow> (Inl e, st1)
      | (Inr result, st1) \<Rightarrow>
          (let ptime = end_time env - start_time env
           in case extract_ai_response result of
                Inl e \<Rightarrow> (Inl e, st1)
              | Inr ai \<Rightarrow>
                  (case extract_tokens_used result of
                     Inl e \<Rightarrow> (Inl e, st1)
                   | Inr tokens \<Rightarrow>
                       (let st2 = st1 \<lparr> background_tasks := background_tasks st1 @
                                          [\<lparr> task_model = model request,
                                             user_message = message request,
                                             ai_response = ai,
                                             task_processing_time = ptime,
                                             task_tokens_used = tokens \<rparr>] \<rparr>
                        in case validate_response env ai of
                             None \<Rightarrow> (Inl (OtherException ''ValidationError''), st2)
                           | Some txt \<Rightarrow>
                               (case validate_optional_int (validate_tokens_used env) tokens of
                                  None \<Rightarrow> (Inl (OtherException ''ValidationError''), st2)
                                | Some n \<Rightarrow>
                                    (Inr \<lparr> response = txt,
                                           response_model = model request,
                                           tokens_used = n,
                                           response_conversation_id = conversation_id request,
                                           timestamp = utcnow env,
                                           processing_time = ptime \<rparr>,
                                     st2))))))"

text \<open>
  The three \<open>except\<close> clauses (lines 289 to 298), tried in order: a timeout counts
  \<open>timeout\<close> and raises 504; any other \<open>httpx.RequestError\<close> counts \<open>error\<close> and raises
  502; every other \<open>Exception\<close>, an \<open>HTTPException\<close> raised inside the \<open>try\<close> included,
  counts \<open>error\<close>, is logged, and raises 500 "Internal server error".
\<close>

fun chat_except :: "ChatRequest \<Rightarrow> exn \<Rightarrow> State \<Rightarrow> exn \<times> State" where
  "chat_except request TimeoutException st =
     (HTTPException 504 ''Request timeout'',
      st \<lparr> LITELLM_REQUESTS := inc (LITELLM_REQUESTS st) (model request) ''timeout'' \<rparr>)"
| "chat_except request (RequestError e) st =
     (HTTPException 502 (''Connection error: '' @ e),
      st \<lparr> LITELLM_REQUESTS := inc (LITELLM_REQUESTS st) (model request) ''error'' \<rparr>)"
| "chat_except request e st =
     (HTTPException 500 ''Internal server error'',
      st \<lparr> LITELLM_REQUESTS := inc (LITELLM_REQUESTS st) (model request) ''error'',
           log := log st @ [ChatRequestFailed e (model request)] \<rparr>)"

definition chat :: "Env \<Rightarrow> ChatRequest \<Rightarrow> State \<Rightarrow> (exn + ChatResponse) \<times> State" where
  "chat env request st =
     (case chat_try env request st of
        (Inr r, st1) \<Rightarrow> (Inr r, st1)
      | (Inl e, st1) \<Rightarrow> (case chat_except request e st1 of (e', st2) \<Rightarrow> (Inl e', st2)))"

subsection \<open>The Vertex AI handler\<close>

text \<open>
  \<open>vertex_ai_chat\<close> (lines 302 to 341). The availability test comes before the \<open>try\<close>,
  so its \<open>HTTPException\<close> reaches the framework as raised. Inside the \<open>try\<close> the
  success counter is incremented as soon as \<open>generate_content\<close> has returned;
  \<open>tokens_used\<close> is the constant \<open>None\<close>; any exception counts \<open>error\<close>, is logged
  and raises 500 with its message.
\<close>

definition vertex_ai_chat :: "Env \<Rightarrow> ChatRequest \<Rightarrow> State \<Rightarrow> (exn + ChatResponse) \<times> State" where
  "vertex_ai_chat env request st =
     (if \<not> vertex_ai_available st
      then (Inl (HTTPException 503 ''Vertex AI not available''), st)
      else
        (let st1 = st \<lparr> outbound := outbound st @
                          [Generate (model request) (message request)
                             (temperature request) (max_tokens request)] \<rparr>;
             failed = (\<lambda>e s.
               (Inl (HTTPException 500 (''Vertex AI error: '' @ e)),
                s \<lparr> VERTEX_AI_REQUESTS := inc (VERTEX_AI_REQUESTS s) (model request) ''error'',
                     log := log s @ [VertexRequestFailed e (model request)] \<rparr>));
             counted = (\<lambda>s.
                s \<lparr> VERTEX_AI_REQUESTS := inc (VERTEX_AI_REQUESTS s) (model request) ''success'' \<rparr>)
         in case generate_content env (model request) (message request)
                   (temperature request) (max_tokens request) of
              GenerateRaises e \<Rightarrow> failed e st1
            | TextRaises e \<Rightarrow> failed e (counted st1)
            | GenerateText txt \<Rightarrow>
                (Inr \<lparr> response = txt,
                       response_model = model request,
                       tokens_used = None,
                       response_conversation_id = conversation_id request,
                       timestamp = utcnow env,
                       processing_time = end_time env - start_time env \<rparr>,
                 counted st1)))"

subsection \<open>Validation of the request body\<close>

text \<open>
  A field of the request body as the validation sees it: the key is missing, its value
  is JSON null, or it has a value of the field's type.
\<close>

datatype 'a field = Missing | Null | Given 'a

record RawChatRequest =
  raw_message :: "string field"
  raw_model :: "string field"
  raw_temperature :: "real field"
  raw_max_tokens :: "int field"
  raw_system_prompt :: "string field"
  raw_conversation_id :: "string field"

text \<open>
  The constraints \<open>class ChatRequest\<close> declares (lines 63 to 69). \<open>message\<close> is
  required (\<open>Field(...)\<close>) and has no length constraint; \<open>model\<close> is a \<open>str\<close> with a
  default; \<open>temperature\<close> and \<open>max_tokens\<close> are \<open>Optional\<close> with a default and the
  bounds \<open>ge\<close>/\<open>le\<close>, which apply to a value and not to \<open>None\<close>; the last two are
  \<open>Optional\<close> with default \<open>None\<close>. \<open>None\<close> is a validation error.
\<close>

definition required_str :: "string field \<Rightarrow> string option" where
  "required_str f = (case f of Missing \<Rightarrow> None | Null \<Rightarrow> None | Given s \<Rightarrow> Some s)"

definition default_str :: "string \<Rightarrow> string field \<Rightarrow> string option" where
  "default_str d f = (case f of Missing \<Rightarrow> Some d | Null \<Rightarrow> None | Given s \<Rightarrow> Some s)"

definition optional_bounded :: "'a::linorder \<Rightarrow> 'a \<Rightarrow> 'a \<Rightarrow> 'a field \<Rightarrow> 'a option option" where
  "optional_bounded d lo hi f =
     (case f of
        Missing \<Rightarrow> Some (Some d)
      | Null \<Rightarrow> Some None
      | Given v \<Rightarrow> if lo \<le> v \<and> v \<le> hi then Some (Some v) else None)"

definition optional_str :: "string field \<Rightarrow> string option" where
  "optional_str f = (case f of Missing \<Rightarrow> None | Null \<Rightarrow> None | Given s \<Rightarrow> Some s)"

definition validate_ChatRequest :: "RawChatRequest \<Rightarrow> ChatRequest option" where
  "validate_ChatRequest raw =
     (case required_str (raw_message raw) of
        None \<Rightarrow> None
      | Some msg \<Rightarrow>
          (case default_str ''gemini-pro'' (raw_model raw) of
             None \<Rightarrow> None
           | Some mdl \<Rightarrow>
               (case optional_bounded (7 / 10) 0 2 (raw_temperature raw) of
                  None \<Rightarrow> None
                | Some temp \<Rightarrow>
                    (case optional_bounded 1000 1 4000 (raw_max_tokens raw) of
                       None \<Rightarrow> None
                     | Some maxtok \<Rightarrow>
                         Some \<lparr> message = msg,
                                model = mdl,
                                temperature = temp,
                                max_tokens = maxtok,
                                system_prompt = optional_str (raw_system_prompt raw),
                                conversation_id = optional_str (raw_conversation_id raw) \<rparr>))))"

subsection \<open>Concrete inputs\<close>

text \<open>
  A concrete world and request on which the handlers are evaluated: validation that
  accepts a str for \<open>response\<close> and an int for \<open>tokens_used\<close>, an upstream
  with a fixed answer, an SDK that answers "hello", and the request
  \<open>{message: "hi", model: "gpt-x", system_prompt: "be terse", conversation_id: "c1"}\<close>.
\<close>

definition accept_str :: "json \<Rightarrow> string option" where
  "accept_str v = (case v of JStr s \<Rightarrow> Some s | _ \<Rightarrow> None)"

definition accept_int :: "json \<Rightarrow> int option" where
  "accept_int v = (case v of JInt n \<Rightarrow> Some n | _ \<Rightarrow> None)"

definition example_env :: "post_outcome \<Rightarrow> Env" where
  "example_env p =
     \<lparr> litellm_url = ''http://litellm-service:4000'',
       post = (\<lambda>url payload. p),
       generate_content = (\<lambda>m msg t n. GenerateText ''hello''),
       start_time = 1,
       end_time = 3,
       utcnow = 0,
       validate_response = accept_str,
       validate_tokens_used = accept_int \<rparr>"

definition example_request :: ChatRequest where
  "example_request =
     \<lparr> message = ''hi'', model = ''gpt-x'', temperature = Some (7 / 10),
       max_tokens = Some 1000, system_prompt = Some ''be terse'',
       conversation_id = Some ''c1'' \<rparr>"

definition upstream_status :: "int \<Rightarrow> string \<Rightarrow> post_outcome" where
  "upstream_status code body =
     Responds \<lparr> status_code = code, response_text = body, json_body = None \<rparr>"

definition upstream_ok :: "json \<Rightarrow> post_outcome" where
  "upstream_ok body =
     Responds \<lparr> status_code = 200, response_text = [], json_body = Some body \<rparr>"

definition completion :: "string \<Rightarrow> (string \<times> json) list \<Rightarrow> json" where
  "completion answer rest =
     JObj ((''choices'', JArr [JObj [(''message'', JObj [(''content'', JStr answer)])]]) # rest)"

text \<open>The request body \<open>{"message": "hi"}\<close>, every other key missing.\<close>

definition raw_example :: RawChatRequest where
  "raw_example = \<lparr> raw_message = Given ''hi'', raw_model = Missing, raw_temperature = Missing,
     raw_max_tokens = Missing, raw_system_prompt = Missing, raw_conversation_id = Missing \<rparr>"

lemmas validate_defs = validate_ChatRequest_def required_str_def default_str_def
  optional_bounded_def optional_str_def

lemmas chat_defs = chat_def chat_try_def call_litellm_def aenter_def aexit_def

lemmas example_defs = example_env_def example_request_def upstream_status_def upstream_ok_def
  completion_def accept_str_def accept_int_def validate_optional_int_def module_init_def litellm_request_of_def
  extract_ai_response_def extract_tokens_used_def

section \<open>Properties\<close>

subsection \<open>Helper lemmas\<close>

lemma call_litellm_available:
  "vertex_ai_available (snd (call_litellm env request p st)) = vertex_ai_available st"
  by (simp add: call_litellm_def aenter_def aexit_def Let_def
      split: ClientState.splits post_outcome.splits option.splits)

lemma chat_try_available:
  "vertex_ai_available (snd (chat_try env request st)) = vertex_ai_available st"
  using call_litellm_available [of env request "litellm_request_of request" st]
  by (auto simp add: chat_try_def Let_def split: prod.splits sum.splits option.splits)

lemma chat_except_available:
  "vertex_ai_available (snd (chat_except request e st)) = vertex_ai_available st"
  by (cases e) simp_all

lemma chat_available:
  "vertex_ai_available (snd (chat env request st)) = vertex_ai_available st"
proof (cases "chat_try env request st")
  case (Pair res st1)
  then have a: "vertex_ai_available st1 = vertex_ai_available st"
    using chat_try_available [of env request st] by simp
  show ?thesis
  proof (cases res)
    case (Inl e)
    obtain e' st2 where ce: "chat_except request e st1 = (e', st2)"
      by (cases "chat_except request e st1")
    then have "vertex_ai_available st2 = vertex_ai_available st1"
      using chat_except_available [of request e st1] by simp
    with Pair Inl ce a show ?thesis by (simp add: chat_def)
  next
    case (Inr r)
    with Pair a show ?thesis by (simp add: chat_def)
  qed
qed

lemma vertex_ai_chat_available:
  "vertex_ai_available (snd (vertex_ai_chat env request st)) = vertex_ai_available st"
  by (simp add: vertex_ai_chat_def Let_def split: generate_outcome.splits)

text \<open>
  What \<open>chat\<close> does on any status other than 200 when the client can be entered: the
  \<open>HTTPException\<close> carrying the upstream status and body is raised inside the \<open>try\<close>,
  caught by \<open>except Exception\<close>, counted a second time, logged, and replaced.
\<close>

lemma chat_non200:
  assumes "http_client st = UNOPENED"
    and "post env (litellm_url env @ ''/chat/completions'') (litellm_request_of request) = Responds r"
    and "status_code r \<noteq> 200"
  shows "chat env request st =
     (Inl (HTTPException 500 ''Internal server error''),
      st \<lparr> http_client := CLOSED,
           LITELLM_REQUESTS :=
             inc (inc (LITELLM_REQUESTS st) (model request) ''error'') (model request) ''error'',
           outbound := outbound st @
             [Post (litellm_url env @ ''/chat/completions'') (litellm_request_of request)],
           log := log st @
             [ChatRequestFailed
                (HTTPException (status_code r) (''LiteLLM error: '' @ response_text r))
                (model request)] \<rparr>)"
  using assms by (simp add: chat_defs)

text \<open>Once the client is closed, \<open>chat\<close> fails before sending anything.\<close>

lemma chat_closed_client:
  assumes "http_client st = CLOSED"
  shows "chat env request st =
     (Inl (HTTPException 500 ''Internal server error''),
      st \<lparr> LITELLM_REQUESTS := inc (LITELLM_REQUESTS st) (model request) ''error'',
           log := log st @ [ChatRequestFailed (OtherException ''RuntimeError'') (model request)] \<rparr>)"
  using assms by (simp add: chat_defs)

text \<open>Every call of \<open>chat\<close> that enters the client leaves it closed.\<close>

lemma call_litellm_closes:
  "http_client st = UNOPENED \<Longrightarrow> http_client (snd (call_litellm env request p st)) = CLOSED"
  by (simp add: call_litellm_def aenter_def aexit_def Let_def
      split: post_outcome.splits option.splits)


text \<open>What a successful \<open>chat\<close> call says about the upstream answer and the response.\<close>

lemma chat_success:
  assumes "fst (chat env request st) = Inr r"
  shows "\<exists>resp result ai tokens.
     post env (litellm_url env @ ''/chat/completions'') (litellm_request_of request) = Responds resp
   \<and> status_code resp = 200 \<and> json_body resp = Some result
   \<and> extract_ai_response result = Inr ai \<and> extract_tokens_used result = Inr tokens
   \<and> validate_response env ai = Some (response r)
   \<and> validate_optional_int (validate_tokens_used env) tokens = Some (tokens_used r)
   \<and> response_conversation_id r = conversation_id request
   \<and> response_model r = model request"
  using assms
  by (auto simp add: chat_def chat_try_def call_litellm_def aenter_def Let_def
      split: prod.splits sum.splits option.splits ClientState.splits post_outcome.splits if_splits)

lemma chat_ok:
  assumes "http_client st = UNOPENED"
    and "post env (litellm_url env @ ''/chat/completions'') (litellm_request_of request) = Responds resp"
    and "status_code resp = 200" and "json_body resp = Some result"
    and "extract_ai_response result = Inr ai" and "extract_tokens_used result = Inr tokens"
    and "validate_response env ai = Some txt" and "validate_optional_int (validate_tokens_used env) tokens = Some n"
  shows "fst (chat env request st)
     = Inr \<lparr> response = txt, response_model = model request, tokens_used = n,
             response_conversation_id = conversation_id request,
             timestamp = utcnow env, processing_time = end_time env - start_time env \<rparr>"
  using assms by (simp add: chat_defs Let_def)

lemma chat_success_tokens:
  assumes "fst (chat env request st) = Inr r"
    and "post env (litellm_url env @ ''/chat/completions'') (litellm_request_of request) = Responds resp"
    and "json_body resp = Some result"
  shows "\<exists>tokens. extract_tokens_used result = Inr tokens
     \<and> validate_optional_int (validate_tokens_used env) tokens = Some (tokens_used r)"
  using chat_success [OF assms(1)] assms(2,3) by auto

text \<open>What \<open>result.get("usage", {}).get("total_tokens")\<close> yields on a dict.\<close>

lemma extract_tokens_used_no_usage:
  "map_of kvs ''usage'' = None \<Longrightarrow> extract_tokens_used (JObj kvs) = Inr JNull"
  by (simp add: extract_tokens_used_def)

lemma extract_tokens_used_usage:
  "map_of kvs ''usage'' = Some (JObj usage) \<Longrightarrow>
   extract_tokens_used (JObj kvs)
     = Inr (case map_of usage ''total_tokens'' of Some v \<Rightarrow> v | None \<Rightarrow> JNull)"
  by (simp add: extract_tokens_used_def)

lemma validate_optional_int_None:
  "validate_optional_int f JNull = Some n \<Longrightarrow> n = None"
  by (simp add: validate_optional_int_def)

lemma validate_optional_int_value:
  "v \<noteq> JNull \<Longrightarrow> validate_optional_int f v = Some n \<Longrightarrow> n = f v \<and> n \<noteq> None"
  by (cases "f v") (auto simp add: validate_optional_int_def)

text \<open>Every \<open>chat\<close> call that can enter the client sends exactly one POST.\<close>

lemma call_litellm_outbound:
  "http_client st = UNOPENED \<Longrightarrow>
   outbound (snd (call_litellm env request p st)) =
     outbound st @ [Post (litellm_url env @ ''/chat/completions'') p]"
  by (simp add: call_litellm_def aenter_def aexit_def Let_def
      split: post_outcome.splits option.splits)

lemma chat_try_outbound:
  "outbound (snd (chat_try env request st)) =
   outbound (snd (call_litellm env request (litellm_request_of request) st))"
  by (auto simp add: chat_try_def Let_def split: prod.splits sum.splits option.splits)

lemma chat_except_outbound:
  "outbound (snd (chat_except request e st)) = outbound st"
  by (cases e) simp_all

lemma chat_outbound:
  "outbound (snd (chat env request st)) = outbound (snd (chat_try env request st))"
proof (cases "chat_try env request st")
  case (Pair res st1)
  show ?thesis
  proof (cases res)
    case (Inl e)
    obtain e' st2 where ce: "chat_except request e st1 = (e', st2)"
      by (cases "chat_except request e st1")
    then have "outbound st2 = outbound st1"
      using chat_except_outbound [of request e st1] by simp
    with Pair Inl ce show ?thesis by (simp add: chat_def)
  next
    case (Inr r)
    with Pair show ?thesis by (simp add: chat_def)
  qed
qed

text \<open>What a validated request says about the raw fields.\<close>

lemma validate_ChatRequest_SomeD:
  assumes "validate_ChatRequest raw = Some request"
  shows "required_str (raw_message raw) = Some (message request)"
    and "optional_bounded (7 / 10) 0 2 (raw_temperature raw) = Some (temperature request)"
    and "optional_bounded 1000 1 4000 (raw_max_tokens raw) = Some (max_tokens request)"
  using assms by (auto simp add: validate_ChatRequest_def split: option.splits)

lemma optional_bounded_SomeD:
  assumes "optional_bounded d lo hi f = Some r" and "lo \<le> d" and "d \<le> hi"
  shows "(\<forall>v. r = Some v \<longrightarrow> lo \<le> v \<and> v \<le> hi)"
    and "r = None \<longrightarrow> f = Null"
    and "f = Missing \<longrightarrow> r = Some d"
  using assms by (cases f; simp add: optional_bounded_def split: if_splits; blast)+

subsection \<open>Upstream errors\<close>

text \<open>
  C1. The claim: on a non-200 upstream status the proxy chat operation fails with the
  upstream status code and the upstream body. Evaluated on the first call of the
  process with an upstream answering 500 "boom", and again with 404 "boom", \<open>chat\<close>
  raises \<open>HTTPException(500, "Internal server error")\<close> both times: the exception built
  from the upstream status and body at lines 256 to 259 is raised inside the \<open>try\<close> and
  replaced by the \<open>except Exception\<close> clause at lines 295 to 298, so neither the status
  404 nor the body reaches the caller.
\<close>

theorem chat_upstream_error_body_replaced:
  "fst (chat (example_env (upstream_status 500 ''boom'')) example_request (module_init None))
     = Inl (HTTPException 500 ''Internal server error'')
   \<and> fst (chat (example_env (upstream_status 404 ''boom'')) example_request (module_init None))
     = Inl (HTTPException 500 ''Internal server error'')"
  by (simp add: chat_defs example_defs)

text \<open>
  C2. The claim: the counter is incremented exactly once per call whatever the outcome.
  Evaluated on the first call of the process with an upstream answering 500 "boom",
  the counter labelled \<open>(gpt-x, error)\<close> goes from 0 to 2: once at line 255 and once
  more at line 296, where the same exception is caught.
\<close>

theorem chat_upstream_error_counted_twice:
  "LITELLM_REQUESTS (module_init None) (''gpt-x'', ''error'') = 0
   \<and> LITELLM_REQUESTS
        (snd (chat (example_env (upstream_status 500 ''boom'')) example_request (module_init None)))
        (''gpt-x'', ''error'') = 2"
  by (simp add: chat_defs example_defs inc_def)

subsection \<open>The shared client\<close>

text \<open>
  C3. The claim: the shared client is not closed per request and stays usable after a
  chat call. Evaluated on two calls in a row against an upstream that answers 200 with
  a well-formed completion: the first call succeeds and leaves the client closed
  (\<open>async with http_client\<close> closes it on leaving the block); the second call cannot
  enter the client, fails with 500, and sends nothing (one POST in all).
\<close>

theorem chat_closes_shared_client:
  "fst (chat (example_env (upstream_ok (completion ''hello'' []))) example_request
          (module_init None))
     = Inr \<lparr> response = ''hello'', response_model = ''gpt-x'', tokens_used = None,
             response_conversation_id = Some ''c1'', timestamp = 0, processing_time = 2 \<rparr>
   \<and> http_client (snd (chat (example_env (upstream_ok (completion ''hello'' []))) example_request
          (module_init None))) = CLOSED
   \<and> fst (chat (example_env (upstream_ok (completion ''hello'' []))) example_request
          (snd (chat (example_env (upstream_ok (completion ''hello'' []))) example_request
             (module_init None))))
     = Inl (HTTPException 500 ''Internal server error'')
   \<and> length (outbound (snd (chat (example_env (upstream_ok (completion ''hello'' []))) example_request
          (snd (chat (example_env (upstream_ok (completion ''hello'' []))) example_request
             (module_init None)))))) = 1"
  by (simp add: chat_defs example_defs)

subsection \<open>Timeouts\<close>

text \<open>
  C6. Whenever the POST to LiteLLM times out (the client could be entered and
  \<open>client.post\<close> raised \<open>httpx.TimeoutException\<close>), \<open>chat\<close> raises
  \<open>HTTPException(504, "Request timeout")\<close>, the counter labelled \<open>(model, timeout)\<close>
  is incremented once and no other label changes, no \<open>log_chat_request\<close> task is
  scheduled, nothing is logged, and exactly one POST was sent (no retry).
\<close>

theorem chat_timeout:
  assumes "http_client st = UNOPENED"
    and "post env (litellm_url env @ ''/chat/completions'') (litellm_request_of request)
           = Raises TimeoutException"
  shows "fst (chat env request st) = Inl (HTTPException 504 ''Request timeout'')
    \<and> LITELLM_REQUESTS (snd (chat env request st))
        = inc (LITELLM_REQUESTS st) (model request) ''timeout''
    \<and> background_tasks (snd (chat env request st)) = background_tasks st
    \<and> log (snd (chat env request st)) = log st
    \<and> outbound (snd (chat env request st))
        = outbound st @ [Post (litellm_url env @ ''/chat/completions'') (litellm_request_of request)]"
  using assms by (simp add: chat_defs)

theorem chat_timeout_witness:
  "http_client (module_init None) = UNOPENED
   \<and> fst (chat (example_env (Raises TimeoutException)) example_request (module_init None))
       = Inl (HTTPException 504 ''Request timeout'')
   \<and> LITELLM_REQUESTS
        (snd (chat (example_env (Raises TimeoutException)) example_request (module_init None)))
        (''gpt-x'', ''timeout'') = 1
   \<and> background_tasks
        (snd (chat (example_env (Raises TimeoutException)) example_request (module_init None))) = []"
  using chat_timeout [of "module_init None" "example_env (Raises TimeoutException)" example_request]
  by (simp add: example_env_def example_request_def module_init_def inc_def)

subsection \<open>Vertex AI unavailable\<close>

text \<open>
  C5. When the Vertex AI initialisation failed at module load, \<open>vertex_ai_available\<close> is
  false, and it stays as it is across calls of either handler. Every call of
  \<open>vertex_ai_chat\<close> in such a state raises the handler's unavailability error,
  \<open>HTTPException(503, "Vertex AI not available")\<close>, and leaves the whole state
  unchanged: no SDK call is recorded, no counter moves, nothing is logged.
\<close>

theorem vertex_ai_chat_unavailable:
  "\<not> vertex_ai_available (module_init (Some e))
   \<and> (\<not> vertex_ai_available st \<longrightarrow>
        vertex_ai_chat env request st = (Inl (HTTPException 503 ''Vertex AI not available''), st))
   \<and> vertex_ai_available (snd (vertex_ai_chat env request st)) = vertex_ai_available st
   \<and> vertex_ai_available (snd (chat env request st)) = vertex_ai_available st"
  by (simp add: module_init_def vertex_ai_chat_available chat_available)
    (simp add: vertex_ai_chat_def)

theorem vertex_ai_chat_unavailable_witness:
  "\<not> vertex_ai_available (module_init (Some ''no credentials''))
   \<and> vertex_ai_chat (example_env (Raises TimeoutException)) example_request
        (module_init (Some ''no credentials''))
      = (Inl (HTTPException 503 ''Vertex AI not available''), module_init (Some ''no credentials''))
   \<and> outbound (module_init (Some ''no credentials'')) = []"
  using vertex_ai_chat_unavailable [of "''no credentials''" "module_init (Some ''no credentials'')"
      "example_env (Raises TimeoutException)" example_request]
  by (simp add: module_init_def)

subsection \<open>The translated request\<close>

text \<open>
  C7. The claim: the system message is present exactly when \<open>system_prompt\<close> is set.
  With \<open>system_prompt\<close> set to the empty string the request is built without a system
  message, because the test at line 239 is truthiness.
\<close>

theorem litellm_request_empty_system_prompt_counterexample:
  "system_prompt (example_request \<lparr> system_prompt := Some [] \<rparr>) \<noteq> None
   \<and> messages (litellm_request_of (example_request \<lparr> system_prompt := Some [] \<rparr>))
       = [\<lparr> role = ''user'', content = ''hi'' \<rparr>]"
  by (simp add: example_defs)

text \<open>
  C7, amended. The messages are a leading system message, present exactly when
  \<open>system_prompt\<close> is a non-empty string, followed by the single user message carrying
  \<open>message\<close>; \<open>temperature\<close> and \<open>max_tokens\<close> are copied unchanged; and this request is
  the one \<open>chat\<close> posts whenever it can enter the client.
\<close>

theorem litellm_request_messages:
  "messages (litellm_request_of request) =
     (case system_prompt request of
        None \<Rightarrow> []
      | Some s \<Rightarrow> if s \<noteq> [] then [\<lparr> role = ''system'', content = s \<rparr>] else [])
     @ [\<lparr> role = ''user'', content = message request \<rparr>]
   \<and> payload_temperature (litellm_request_of request) = temperature request
   \<and> payload_max_tokens (litellm_request_of request) = max_tokens request
   \<and> (http_client st = UNOPENED \<longrightarrow>
        outbound (snd (chat env request st)) =
          outbound st @ [Post (litellm_url env @ ''/chat/completions'') (litellm_request_of request)])"
  using call_litellm_outbound [of st env request "litellm_request_of request"]
  by (simp add: litellm_request_of_def chat_outbound chat_try_outbound Let_def split: option.splits)

theorem litellm_request_messages_witness:
  "messages (litellm_request_of example_request) =
     [\<lparr> role = ''system'', content = ''be terse'' \<rparr>, \<lparr> role = ''user'', content = ''hi'' \<rparr>]
   \<and> payload_temperature (litellm_request_of example_request) = Some (7 / 10)
   \<and> payload_max_tokens (litellm_request_of example_request) = Some 1000
   \<and> http_client (module_init None) = UNOPENED
   \<and> outbound (snd (chat (example_env (Raises TimeoutException)) example_request (module_init None))) =
        [Post ''http://litellm-service:4000/chat/completions'' (litellm_request_of example_request)]"
  using litellm_request_messages
    [of example_request "module_init None" "example_env (Raises TimeoutException)"]
  by (simp add: example_request_def example_env_def module_init_def)

subsection \<open>Validated requests\<close>

text \<open>
  C8. The claim: a validated request has a non-empty message, a float temperature in
  [0, 2] and an integer max_tokens in [1, 4000]. A body with the empty message and
  null for \<open>temperature\<close> and \<open>max_tokens\<close> validates: \<open>message\<close> has no length
  constraint, and the two \<open>Optional\<close> fields admit \<open>None\<close>.
\<close>

theorem validate_ChatRequest_empty_message_counterexample:
  "validate_ChatRequest (raw_example \<lparr> raw_message := Given [], raw_temperature := Null,
        raw_max_tokens := Null \<rparr>)
   = Some \<lparr> message = [], model = ''gemini-pro'', temperature = None, max_tokens = None,
            system_prompt = None, conversation_id = None \<rparr>"
  by (simp add: validate_defs raw_example_def)

text \<open>
  C8, amended. A validated request has the message string that was given (possibly
  empty); its temperature is \<open>None\<close> (only when null was given) or lies in [0, 2], and
  is 0.7 when the field was missing; its max_tokens is \<open>None\<close> (only when null was
  given) or lies in [1, 4000], and is 1000 when the field was missing.
\<close>

theorem validate_ChatRequest_bounds:
  assumes "validate_ChatRequest raw = Some request"
  shows "raw_message raw = Given (message request)
    \<and> (\<forall>t. temperature request = Some t \<longrightarrow> 0 \<le> t \<and> t \<le> 2)
    \<and> (\<forall>n. max_tokens request = Some n \<longrightarrow> 1 \<le> n \<and> n \<le> 4000)
    \<and> (temperature request = None \<longrightarrow> raw_temperature raw = Null)
    \<and> (max_tokens request = None \<longrightarrow> raw_max_tokens raw = Null)
    \<and> (raw_temperature raw = Missing \<longrightarrow> temperature request = Some (7 / 10))
    \<and> (raw_max_tokens raw = Missing \<longrightarrow> max_tokens request = Some 1000)"
proof -
  have m: "raw_message raw = Given (message request)"
    using validate_ChatRequest_SomeD(1) [OF assms]
    by (cases "raw_message raw") (simp_all add: required_str_def)
  have t: "optional_bounded (7 / 10) 0 2 (raw_temperature raw) = Some (temperature request)"
    by (rule validate_ChatRequest_SomeD(2) [OF assms])
  have n: "optional_bounded 1000 1 4000 (raw_max_tokens raw) = Some (max_tokens request)"
    by (rule validate_ChatRequest_SomeD(3) [OF assms])
  have bt: "(0::real) \<le> 7 / 10" "(7 / 10 :: real) \<le> 2" by simp_all
  have bn: "(1::int) \<le> 1000" "(1000::int) \<le> 4000" by simp_all
  note T = optional_bounded_SomeD [OF t bt]
  note N = optional_bounded_SomeD [OF n bn]
  from m T N show ?thesis by blast
qed

theorem validate_ChatRequest_bounds_witness:
  "validate_ChatRequest raw_example
     = Some \<lparr> message = ''hi'', model = ''gemini-pro'', temperature = Some (7 / 10),
              max_tokens = Some 1000, system_prompt = None, conversation_id = None \<rparr>
   \<and> (0::real) \<le> 7 / 10 \<and> (7 / 10 :: real) \<le> 2 \<and> (1::int) \<le> 1000 \<and> (1000::int) \<le> 4000"
proof -
  have v: "validate_ChatRequest raw_example
     = Some \<lparr> message = ''hi'', model = ''gemini-pro'', temperature = Some (7 / 10),
              max_tokens = Some 1000, system_prompt = None, conversation_id = None \<rparr>"
    by (simp add: validate_defs raw_example_def)
  from validate_ChatRequest_bounds [OF v] show ?thesis using v by simp
qed

subsection \<open>Echo of the conversation and token count\<close>

text \<open>
  C9. The claim: \<open>tokens_used\<close> is populated exactly when the upstream response carried
  a usage field. With an upstream body whose usage field is present but has no
  \<open>total_tokens\<close> entry the call succeeds with \<open>tokens_used\<close> absent.
\<close>

theorem chat_usage_without_total_tokens_counterexample:
  "fst (chat (example_env (upstream_ok (completion ''hello'' [(''usage'', JObj [])])))
          example_request (module_init None))
   = Inr \<lparr> response = ''hello'', response_model = ''gpt-x'', tokens_used = None,
           response_conversation_id = Some ''c1'', timestamp = 0, processing_time = 2 \<rparr>"
  by (simp add: chat_defs example_defs)

text \<open>
  C9, amended. For every successful \<open>chat\<close> call the response's \<open>conversation_id\<close> is
  the request's. \<open>tokens_used\<close> is absent when the upstream body has no usage field,
  and when its usage dict has no \<open>total_tokens\<close> entry or a null one; it is populated,
  with what the \<open>total_tokens\<close> entry validates to, when the usage dict has a
  \<open>total_tokens\<close> entry that is not null. And a 200 answer without a usage field
  whose completion text validates is a success.
\<close>

theorem chat_echo_and_tokens:
  "(fst (chat env request st) = Inr r \<longrightarrow> response_conversation_id r = conversation_id request)
   \<and> (fst (chat env request st) = Inr r \<and> post env (litellm_url env @ ''/chat/completions'') (litellm_request_of request) = Responds resp \<and> json_body resp = Some (JObj kvs) \<and> map_of kvs ''usage'' = None
      \<longrightarrow> tokens_used r = None)
   \<and> (fst (chat env request st) = Inr r \<and> post env (litellm_url env @ ''/chat/completions'') (litellm_request_of request) = Responds resp \<and> json_body resp = Some (JObj kvs) \<and> map_of kvs ''usage'' = Some (JObj usage)
        \<and> (map_of usage ''total_tokens'' = None \<or> map_of usage ''total_tokens'' = Some JNull)
      \<longrightarrow> tokens_used r = None)
   \<and> (fst (chat env request st) = Inr r \<and> post env (litellm_url env @ ''/chat/completions'') (litellm_request_of request) = Responds resp \<and> json_body resp = Some (JObj kvs) \<and> map_of kvs ''usage'' = Some (JObj usage)
        \<and> map_of usage ''total_tokens'' = Some v \<and> v \<noteq> JNull
      \<longrightarrow> tokens_used r = validate_tokens_used env v \<and> tokens_used r \<noteq> None)
   \<and> (http_client st = UNOPENED \<and> post env (litellm_url env @ ''/chat/completions'') (litellm_request_of request) = Responds resp \<and> status_code resp = 200 \<and> json_body resp = Some (JObj kvs)
        \<and> map_of kvs ''usage'' = None
        \<and> extract_ai_response (JObj kvs) = Inr ai \<and> validate_response env ai = Some answer
      \<longrightarrow> fst (chat env request st)
            = Inr \<lparr> response = answer, response_model = model request, tokens_used = None,
                    response_conversation_id = conversation_id request,
                    timestamp = utcnow env, processing_time = end_time env - start_time env \<rparr>)"
proof (intro conjI impI)
  assume a: "fst (chat env request st) = Inr r"
  from chat_success [OF a] show "response_conversation_id r = conversation_id request" by blast
next
  assume a: "fst (chat env request st) = Inr r \<and> post env (litellm_url env @ ''/chat/completions'') (litellm_request_of request) = Responds resp \<and> json_body resp = Some (JObj kvs) \<and> map_of kvs ''usage'' = None"
  then obtain tokens where e: "extract_tokens_used (JObj kvs) = Inr tokens"
    and v: "validate_optional_int (validate_tokens_used env) tokens = Some (tokens_used r)"
    using chat_success_tokens [of env request st r resp "JObj kvs"] by blast
  from a e have "tokens = JNull" by (simp add: extract_tokens_used_no_usage)
  with v show "tokens_used r = None" by (simp add: validate_optional_int_None)
next
  assume a: "fst (chat env request st) = Inr r \<and> post env (litellm_url env @ ''/chat/completions'') (litellm_request_of request) = Responds resp \<and> json_body resp = Some (JObj kvs) \<and> map_of kvs ''usage'' = Some (JObj usage)
        \<and> (map_of usage ''total_tokens'' = None \<or> map_of usage ''total_tokens'' = Some JNull)"
  then obtain tokens where e: "extract_tokens_used (JObj kvs) = Inr tokens"
    and v: "validate_optional_int (validate_tokens_used env) tokens = Some (tokens_used r)"
    using chat_success_tokens [of env request st r resp "JObj kvs"] by blast
  from a have "extract_tokens_used (JObj kvs) = Inr JNull"
    by (auto simp add: extract_tokens_used_usage)
  with e have "tokens = JNull" by simp
  with v show "tokens_used r = None" by (simp add: validate_optional_int_None)
next
  assume a: "fst (chat env request st) = Inr r \<and> post env (litellm_url env @ ''/chat/completions'') (litellm_request_of request) = Responds resp \<and> json_body resp = Some (JObj kvs) \<and> map_of kvs ''usage'' = Some (JObj usage)
        \<and> map_of usage ''total_tokens'' = Some v \<and> v \<noteq> JNull"
  then obtain tokens where e: "extract_tokens_used (JObj kvs) = Inr tokens"
    and w: "validate_optional_int (validate_tokens_used env) tokens = Some (tokens_used r)"
    using chat_success_tokens [of env request st r resp "JObj kvs"] by blast
  from a have "extract_tokens_used (JObj kvs) = Inr v"
    by (simp add: extract_tokens_used_usage)
  with e have t: "tokens = v" by simp
  from a have nz: "v \<noteq> JNull" by simp
  from w t have w': "validate_optional_int (validate_tokens_used env) v = Some (tokens_used r)"
    by simp
  note V = validate_optional_int_value [OF nz w']
  from V show "tokens_used r = validate_tokens_used env v" by (rule conjunct1)
  from V show "tokens_used r \<noteq> None" by (rule conjunct2)
next
  assume a: "http_client st = UNOPENED \<and> post env (litellm_url env @ ''/chat/completions'') (litellm_request_of request) = Responds resp \<and> status_code resp = 200 \<and> json_body resp = Some (JObj kvs)
        \<and> map_of kvs ''usage'' = None
        \<and> extract_ai_response (JObj kvs) = Inr ai \<and> validate_response env ai = Some answer"
  then have e: "extract_tokens_used (JObj kvs) = Inr JNull"
    by (simp add: extract_tokens_used_no_usage)
  have n: "validate_optional_int (validate_tokens_used env) JNull = Some None"
    by (simp add: validate_optional_int_def)
  from a e n show "fst (chat env request st)
            = Inr \<lparr> response = answer, response_model = model request, tokens_used = None,
                    response_conversation_id = conversation_id request,
                    timestamp = utcnow env, processing_time = end_time env - start_time env \<rparr>"
    using chat_ok [of st env request resp "JObj kvs" ai JNull answer None] by simp
qed

theorem chat_echo_and_tokens_witness:
  "fst (chat (example_env (upstream_ok (completion ''hello''
            [(''usage'', JObj [(''total_tokens'', JInt 7)])])))
          example_request (module_init None))
     = Inr \<lparr> response = ''hello'', response_model = ''gpt-x'', tokens_used = Some 7,
             response_conversation_id = Some ''c1'', timestamp = 0, processing_time = 2 \<rparr>
   \<and> fst (chat (example_env (upstream_ok (completion ''hello'' [(''usage'', JObj [])])))
          example_request (module_init None))
     = Inr \<lparr> response = ''hello'', response_model = ''gpt-x'', tokens_used = None,
             response_conversation_id = Some ''c1'', timestamp = 0, processing_time = 2 \<rparr>
   \<and> fst (chat (example_env (upstream_ok (completion ''hello'' []))) example_request
          (module_init None))
     = Inr \<lparr> response = ''hello'', response_model = ''gpt-x'', tokens_used = None,
             response_conversation_id = Some ''c1'', timestamp = 0, processing_time = 2 \<rparr>
   \<and> conversation_id example_request = Some ''c1''
   \<and> accept_int (JInt 7) = Some 7"
proof -
  let ?c = "(''choices'', JArr [JObj [(''message'', JObj [(''content'', JStr ''hello'')])]])"
  let ?u7 = "[(''total_tokens'', JInt 7)]"
  let ?k7 = "[?c, (''usage'', JObj ?u7)]"
  let ?ke = "[?c, (''usage'', JObj [])]"
  let ?k0 = "[?c]"
  let ?e7 = "example_env (upstream_ok (completion ''hello'' [(''usage'', JObj ?u7)]))"
  let ?ee = "example_env (upstream_ok (completion ''hello'' [(''usage'', JObj [])]))"
  let ?e0 = "example_env (upstream_ok (completion ''hello'' []))"
  let ?p7 = "\<lparr> status_code = 200, response_text = [], json_body = Some (JObj ?k7) \<rparr>"
  let ?pe = "\<lparr> status_code = 200, response_text = [], json_body = Some (JObj ?ke) \<rparr>"
  let ?p0 = "\<lparr> status_code = 200, response_text = [], json_body = Some (JObj ?k0) \<rparr>"
  let ?r7 = "\<lparr> response = ''hello'', response_model = ''gpt-x'', tokens_used = Some 7,
             response_conversation_id = Some ''c1'', timestamp = 0, processing_time = 2 \<rparr>"
  let ?r0 = "\<lparr> response = ''hello'', response_model = ''gpt-x'', tokens_used = None,
             response_conversation_id = Some ''c1'', timestamp = 0, processing_time = 2 \<rparr>"
  have s7: "fst (chat ?e7 example_request (module_init None)) = Inr ?r7"
    by (simp add: chat_defs example_defs)
  have se: "fst (chat ?ee example_request (module_init None)) = Inr ?r0"
    by (simp add: chat_defs example_defs)
  note T7 = chat_echo_and_tokens
    [of ?e7 example_request "module_init None" ?r7 ?p7 ?k7 ?u7 "JInt 7"]
  note Te = chat_echo_and_tokens
    [of ?ee example_request "module_init None" ?r0 ?pe ?ke "[]"]
  note T0 = chat_echo_and_tokens
    [of ?e0 example_request "module_init None" ?r0 ?p0 ?k0 "[]" JNull "JStr ''hello''" "''hello''"]
  have echo: "response_conversation_id ?r7 = conversation_id example_request"
    using T7 [THEN conjunct1] s7 by (rule mp)
  have h7: "fst (chat ?e7 example_request (module_init None)) = Inr ?r7
        \<and> post ?e7 (litellm_url ?e7 @ ''/chat/completions'') (litellm_request_of example_request)
             = Responds ?p7
        \<and> json_body ?p7 = Some (JObj ?k7)
        \<and> map_of ?k7 ''usage'' = Some (JObj ?u7)
        \<and> map_of ?u7 ''total_tokens'' = Some (JInt 7) \<and> JInt 7 \<noteq> JNull"
    using s7 by (simp add: example_env_def upstream_ok_def completion_def)
  have tok: "tokens_used ?r7 = validate_tokens_used ?e7 (JInt 7) \<and> tokens_used ?r7 \<noteq> None"
    using T7 [THEN conjunct2, THEN conjunct2, THEN conjunct2, THEN conjunct1] h7 by (rule mp)
  have he: "fst (chat ?ee example_request (module_init None)) = Inr ?r0
        \<and> post ?ee (litellm_url ?ee @ ''/chat/completions'') (litellm_request_of example_request)
             = Responds ?pe
        \<and> json_body ?pe = Some (JObj ?ke)
        \<and> map_of ?ke ''usage'' = Some (JObj [])
        \<and> (map_of [] ''total_tokens'' = (None :: json option)
            \<or> map_of [] ''total_tokens'' = Some JNull)"
    using se by (simp add: example_env_def upstream_ok_def completion_def)
  have none_e: "tokens_used ?r0 = None"
    using Te [THEN conjunct2, THEN conjunct2, THEN conjunct1] he by (rule mp)
  have h0: "http_client (module_init None) = UNOPENED
        \<and> post ?e0 (litellm_url ?e0 @ ''/chat/completions'') (litellm_request_of example_request)
             = Responds ?p0
        \<and> status_code ?p0 = 200 \<and> json_body ?p0 = Some (JObj ?k0)
        \<and> map_of ?k0 ''usage'' = None
        \<and> extract_ai_response (JObj ?k0) = Inr (JStr ''hello'')
        \<and> validate_response ?e0 (JStr ''hello'') = Some ''hello''"
    by (simp add: example_defs)
  have s0': "fst (chat ?e0 example_request (module_init None))
        = Inr \<lparr> response = ''hello'', response_model = model example_request, tokens_used = None,
                response_conversation_id = conversation_id example_request,
                timestamp = utcnow ?e0, processing_time = end_time ?e0 - start_time ?e0 \<rparr>"
    using T0 [THEN conjunct2, THEN conjunct2, THEN conjunct2, THEN conjunct2] h0 by (rule mp)
  then have s0: "fst (chat ?e0 example_request (module_init None)) = Inr ?r0"
    by (simp add: example_env_def example_request_def)
  have g0: "fst (chat ?e0 example_request (module_init None)) = Inr ?r0
        \<and> post ?e0 (litellm_url ?e0 @ ''/chat/completions'') (litellm_request_of example_request)
             = Responds ?p0
        \<and> json_body ?p0 = Some (JObj ?k0) \<and> map_of ?k0 ''usage'' = None"
    using s0 by (simp add: example_env_def upstream_ok_def completion_def)
  have none_0: "tokens_used ?r0 = None"
    using T0 [THEN conjunct2, THEN conjunct1] g0 by (rule mp)
  from s7 se s0 echo tok none_e none_0 show ?thesis
    by (simp add: example_env_def example_request_def)
qed

subsection \<open>The model field of the response\<close>

text \<open>
  C10. For every successful call of \<open>chat\<close> or of \<open>vertex_ai_chat\<close> the \<open>model\<close> of the
  response is the \<open>model\<close> of the request (nothing the upstream reports is used: in the
  witness the upstream body names another model), and on the Vertex AI path
  \<open>tokens_used\<close> is \<open>None\<close>.
\<close>

theorem chat_response_model:
  "(fst (chat env request st) = Inr r \<longrightarrow> response_model r = model request)
   \<and> (fst (vertex_ai_chat env request st) = Inr r' \<longrightarrow>
        response_model r' = model request \<and> tokens_used r' = None)"
proof (intro conjI impI)
  assume "fst (chat env request st) = Inr r"
  from chat_success [OF this] show "response_model r = model request" by blast
next
  assume a: "fst (vertex_ai_chat env request st) = Inr r'"
  then show "response_model r' = model request"
    by (auto simp add: vertex_ai_chat_def Let_def split: if_splits generate_outcome.splits)
  from a show "tokens_used r' = None"
    by (auto simp add: vertex_ai_chat_def Let_def split: if_splits generate_outcome.splits)
qed

theorem chat_response_model_witness:
  "fst (chat (example_env (upstream_ok (completion ''hello'' [(''model'', JStr ''other'')])))
          example_request (module_init None))
     = Inr \<lparr> response = ''hello'', response_model = ''gpt-x'', tokens_used = None,
             response_conversation_id = Some ''c1'', timestamp = 0, processing_time = 2 \<rparr>
   \<and> fst (vertex_ai_chat (example_env (upstream_ok (completion ''hello'' [(''model'', JStr ''other'')])))
          example_request (module_init None))
     = Inr \<lparr> response = ''hello'', response_model = ''gpt-x'', tokens_used = None,
             response_conversation_id = Some ''c1'', timestamp = 0, processing_time = 2 \<rparr>
   \<and> model example_request = ''gpt-x''"
proof -
  let ?r = "\<lparr> response = ''hello'', response_model = ''gpt-x'', tokens_used = None,
             response_conversation_id = Some ''c1'', timestamp = 0, processing_time = 2 \<rparr>"
  let ?env = "example_env (upstream_ok (completion ''hello'' [(''model'', JStr ''other'')]))"
  have a: "fst (chat ?env example_request (module_init None)) = Inr ?r"
    by (simp add: chat_defs example_defs)
  have b: "fst (vertex_ai_chat ?env example_request (module_init None)) = Inr ?r"
    by (simp add: vertex_ai_chat_def example_defs)
  have "response_model ?r = model example_request"
    using chat_response_model [of ?env example_request "module_init None" ?r ?r] a by blast
  with a b show ?thesis by simp
qed

end
